theory Spec2Isabelle
  imports Main "HOL-Library.Word"
begin

unbundle bit_operations_syntax

section \<open>One-time messages: the obfuscation codec and the message store\<close>

text \<open>
  The development embeds the backend of the one-time-message service
  (\<^verbatim>\<open>backend/src/index.ts\<close>, and its later variant that keeps the keys in a table of
  their own) and the decoding step of the frontend (\<^verbatim>\<open>frontend/src/App.tsx\<close>).

  Conventions of the embedding:
  \<^item> a JavaScript string is the list of its UTF-16 code units (\<open>16 word list\<close>), which is
    what \<^verbatim>\<open>length\<close>, \<^verbatim>\<open>split('')\<close>, \<^verbatim>\<open>charCodeAt\<close> and \<^verbatim>\<open>String.fromCharCode\<close> work on;
  \<^item> a table with a primary key is a map from the key to its row;
  \<^item> the database keeps a text as UTF-8, which has no rendering for a surrogate without
    its partner, so a \<^verbatim>\<open>TEXT\<close> column need not hand back the code units that were bound
    to it. What the column hands back for a text is a parameter of the functions that
    insert free text (the message and the two header values); the ids and keys are
    hexadecimal digits and are kept as they are;
  \<^item> \<^verbatim>\<open>crypto.randomBytes\<close> and the system clock are inputs: the bytes the generator
    delivers during a call, and the value of each clock reading, are arguments;
  \<^item> a timestamp is the clock's number of milliseconds. The source stores its
    \<^verbatim>\<open>toISOString()\<close> rendering and compares the renderings as text; on the four-digit
    years the rendering has a fixed width and the comparison of the texts is the
    comparison of the numbers;
  \<^item> \<^verbatim>\<open>xss\<close> comes from a library outside the repository and is a parameter.
\<close>

subsection \<open>Strings, bytes and hexadecimal rendering\<close>

type_synonym jsstring = "16 word list"

type_synonym bytes = "8 word list"

text \<open>The bytes \<^verbatim>\<open>crypto.randomBytes\<close> delivers during one call of the store, in order.\<close>

type_synonym entropy = "nat \<Rightarrow> 8 word"

definition randomBytes :: "entropy \<Rightarrow> nat \<Rightarrow> nat \<Rightarrow> bytes" where
  \<comment> \<open>\<open>randomBytes rnd off n\<close>: the \<open>n\<close> bytes delivered after \<open>off\<close> bytes were taken.\<close>
  "randomBytes rnd off n = map rnd [off..<off + n]"

definition hexDigit :: "nat \<Rightarrow> 16 word" where
  \<comment> \<open>the code unit of a digit among \<^verbatim>\<open>0123456789abcdef\<close>\<close>
  "hexDigit d = (if d < 10 then of_nat (48 + d) else of_nat (87 + d))"

definition toHex :: "bytes \<Rightarrow> jsstring" where
  \<comment> \<open>\<^verbatim>\<open>Buffer.toString('hex')\<close>: two lowercase digits for each byte\<close>
  "toHex bs = concat (map (\<lambda>b. [hexDigit (unat b div 16), hexDigit (unat b mod 16)]) bs)"

definition generateKey :: "entropy \<Rightarrow> nat \<Rightarrow> nat \<Rightarrow> jsstring" where
  \<comment> \<open>\<^verbatim>\<open>generateKey(length) = crypto.randomBytes(length).toString('hex')\<close>\<close>
  "generateKey rnd off len = toHex (randomBytes rnd off len)"

subsection \<open>The codec\<close>

definition keyCodeAt :: "jsstring \<Rightarrow> nat \<Rightarrow> 16 word" where
  \<comment> \<open>\<^verbatim>\<open>key.charCodeAt(i % key.length)\<close> as an operand of \<^verbatim>\<open>^\<close>. With an empty key the
      index is \<^verbatim>\<open>NaN\<close>, \<^verbatim>\<open>charCodeAt\<close> answers \<^verbatim>\<open>NaN\<close>, and \<^verbatim>\<open>^\<close> reads it as 0.\<close>
  "keyCodeAt k i = (if k = [] then 0 else k ! (i mod length k))"

definition encryptedMessage :: "jsstring \<Rightarrow> jsstring \<Rightarrow> jsstring" where
  \<comment> \<open>\<^verbatim>\<open>Messages.set\<close>: \<^verbatim>\<open>message.split('').map((char, i) => ...).join('')\<close>\<close>
  "encryptedMessage msg k =
     map (\<lambda>(char, i). char XOR keyCodeAt k i) (zip msg [0..<length msg])"

definition decryptedMessage :: "jsstring \<Rightarrow> jsstring \<Rightarrow> jsstring" where
  \<comment> \<open>\<^verbatim>\<open>fetchMessage\<close> of the frontend: the same transform on the stored text\<close>
  "decryptedMessage enc k =
     map (\<lambda>(char, i). char XOR keyCodeAt k i) (zip enc [0..<length enc])"

subsection \<open>Well-formed text\<close>

definition isHighSurrogate :: "16 word \<Rightarrow> bool" where
  \<comment> \<open>a code unit from \<^verbatim>\<open>0xD800\<close> to \<^verbatim>\<open>0xDBFF\<close>\<close>
  "isHighSurrogate c = (c AND 0xFC00 = 0xD800)"

definition isLowSurrogate :: "16 word \<Rightarrow> bool" where
  \<comment> \<open>a code unit from \<^verbatim>\<open>0xDC00\<close> to \<^verbatim>\<open>0xDFFF\<close>\<close>
  "isLowSurrogate c = (c AND 0xFC00 = 0xDC00)"

fun wellFormed :: "jsstring \<Rightarrow> bool" where
  \<comment> \<open>well-formed UTF-16: every high surrogate is followed by a low one, and no low
      surrogate stands without a high one before it\<close>
  "wellFormed [] = True"
| "wellFormed [c] = (\<not> isHighSurrogate c \<and> \<not> isLowSurrogate c)"
| "wellFormed (c # c2 # cs) =
     (if isHighSurrogate c then isLowSurrogate c2 \<and> wellFormed cs
      else \<not> isLowSurrogate c \<and> wellFormed (c2 # cs))"

text \<open>What a \<^verbatim>\<open>TEXT\<close> column hands back for the text that was bound to it.\<close>

type_synonym textcolumn = "jsstring \<Rightarrow> jsstring"

subsection \<open>Rows and failures\<close>

record MessageRow =
  msg_id :: jsstring
  message :: jsstring
  createdAt :: int
  expiresAt :: int
  ipReader :: "jsstring option"
  ipWriter :: "jsstring option"
  userAgent :: "jsstring option"

record Message = MessageRow +
  key :: jsstring

datatype failure =
    NotFound          \<comment> \<open>\<^verbatim>\<open>error(404, 'Message not found')\<close>\<close>
  | ConstraintFailed  \<comment> \<open>an \<^verbatim>\<open>INSERT\<close> under a primary key that is taken throws\<close>

type_synonym headers = "string \<rightharpoonup> jsstring"

definition orElse :: "jsstring option \<Rightarrow> jsstring option \<Rightarrow> jsstring option" where
  \<comment> \<open>\<^verbatim>\<open>a || b\<close> on header values: an absent or empty \<open>a\<close> is falsy\<close>
  "orElse a b = (case a of None \<Rightarrow> b | Some v \<Rightarrow> if v = [] then b else Some v)"

definition expires :: int where
  \<comment> \<open>\<^verbatim>\<open>const expires = 60 * 60 * 24 // 24 hours\<close>, in seconds\<close>
  "expires = 60 * 60 * 24"

subsection \<open>The store with one table\<close>

type_synonym db = "jsstring \<rightharpoonup> Message"

definition Messages_set ::
  "textcolumn \<Rightarrow> entropy \<Rightarrow> int \<Rightarrow> int \<Rightarrow> headers \<Rightarrow> jsstring \<Rightarrow> db
     \<Rightarrow> (failure + jsstring) \<times> db" where
  \<comment> \<open>\<open>t_new\<close> is the clock at \<^verbatim>\<open>new Date()\<close>, \<open>t_now\<close> the clock at \<^verbatim>\<open>Date.now()\<close>;
      the row holds what the column \<open>col\<close> keeps of the encoded text\<close>
  "Messages_set col rnd t_new t_now hdrs msg d =
     (let k = generateKey rnd 0 (length msg);
          i = toHex (randomBytes rnd (length msg) 16);
          ua = hdrs ''user-agent'';
          ipw = orElse (hdrs ''x-forwarded-for'') (orElse (hdrs ''x-real-ip'') None);
          created = t_new;
          expiry = t_now + expires * 1000;
          enc = encryptedMessage msg k
      in if d i \<noteq> None then (Inl ConstraintFailed, d)
         else (Inr i, d(i \<mapsto> \<lparr>msg_id = i, message = col enc, createdAt = created,
                 expiresAt = expiry, ipReader = None, ipWriter = map_option col ipw,
                 userAgent = map_option col ua, key = k\<rparr>)))"

definition Messages_get :: "jsstring \<Rightarrow> db \<Rightarrow> Message option" where
  \<comment> \<open>\<^verbatim>\<open>SELECT * FROM messages WHERE id = $id\<close>, \<^verbatim>\<open>null\<close> without a row\<close>
  "Messages_get i d = d i"

definition Messages_destroy :: "jsstring \<Rightarrow> db \<Rightarrow> db" where
  \<comment> \<open>\<^verbatim>\<open>DELETE FROM messages WHERE id = $id\<close>\<close>
  "Messages_destroy i d = d(i := None)"

definition Messages_purgeExpired :: "int \<Rightarrow> db \<Rightarrow> db" where
  \<comment> \<open>\<^verbatim>\<open>DELETE FROM messages WHERE expiresAt < $date\<close>, \<open>now\<close> the clock of the call\<close>
  "Messages_purgeExpired now d =
     (\<lambda>i. case d i of None \<Rightarrow> None
                     | Some r \<Rightarrow> if expiresAt r < now then None else Some r)"

datatype presence = Exist

definition get_available ::
  "(jsstring \<Rightarrow> jsstring) \<Rightarrow> jsstring \<Rightarrow> db \<Rightarrow> (failure + presence) \<times> db" where
  \<comment> \<open>\<^verbatim>\<open>GET /available/:id\<close>\<close>
  "get_available xss pid d =
     (let i = xss pid
      in (case Messages_get i d of Some m \<Rightarrow> Inr Exist | None \<Rightarrow> Inl NotFound, d))"

definition get_message ::
  "(jsstring \<Rightarrow> jsstring) \<Rightarrow> jsstring \<Rightarrow> db \<Rightarrow> (failure + Message) \<times> db" where
  \<comment> \<open>\<^verbatim>\<open>GET /message/:id\<close>: read it and destroy\<close>
  "get_message xss pid d =
     (let i = xss pid;
          m = Messages_get i d;
          d' = Messages_destroy i d
      in (case m of Some r \<Rightarrow> Inr r | None \<Rightarrow> Inl NotFound, d'))"


definition fetchMessage ::
  "(jsstring \<Rightarrow> jsstring) \<Rightarrow> jsstring \<Rightarrow> db \<Rightarrow> (failure + jsstring) \<times> db" where
  \<comment> \<open>the frontend's \<^verbatim>\<open>fetchMessage\<close> over \<^verbatim>\<open>GET /message/:id\<close>: a 404 is the failure,
      a row is decoded with the key it carries\<close>
  "fetchMessage xss pid d =
     (case get_message xss pid d of
        (Inl e, d') \<Rightarrow> (Inl e, d')
      | (Inr r, d') \<Rightarrow> (Inr (decryptedMessage (message r) (key r)), d'))"


subsection \<open>The store with a table of keys\<close>

text \<open>
  The later variant of the backend keeps the key of a message in a second table,
  \<^verbatim>\<open>keys\<close>, under the same id. The row of \<^verbatim>\<open>messages\<close> has no key column.
\<close>

record db_split =
  messages :: "jsstring \<rightharpoonup> MessageRow"
  keys :: "jsstring \<rightharpoonup> jsstring"

definition Messages_set_split ::
  "textcolumn \<Rightarrow> entropy \<Rightarrow> int \<Rightarrow> int \<Rightarrow> headers \<Rightarrow> jsstring \<Rightarrow> db_split
     \<Rightarrow> (failure + jsstring) \<times> db_split" where
  \<comment> \<open>two \<^verbatim>\<open>INSERT\<close>s with no transaction around them: when the second throws, the row
      of the first stays\<close>
  "Messages_set_split col rnd t_new t_now hdrs msg s =
     (let k = generateKey rnd 0 (length msg);
          i = toHex (randomBytes rnd (length msg) 16);
          ua = hdrs ''user-agent'';
          ipw = orElse (hdrs ''x-forwarded-for'') (orElse (hdrs ''x-real-ip'') None);
          created = t_new;
          expiry = t_now + expires * 1000;
          enc = encryptedMessage msg k
      in if messages s i \<noteq> None then (Inl ConstraintFailed, s)
         else
           (let s1 = s\<lparr>messages := (messages s)(i \<mapsto> \<lparr>msg_id = i, message = col enc,
                        createdAt = created, expiresAt = expiry, ipReader = None,
                        ipWriter = map_option col ipw, userAgent = map_option col ua\<rparr>)\<rparr>
            in if keys s1 i \<noteq> None then (Inl ConstraintFailed, s1)
               else (Inr i, s1\<lparr>keys := (keys s1)(i \<mapsto> k)\<rparr>)))"

definition Messages_get_split :: "jsstring \<Rightarrow> db_split \<Rightarrow> Message option" where
  \<comment> \<open>both rows are needed; the answer is \<^verbatim>\<open>{...message, ...key, id: message?.id}\<close>\<close>
  "Messages_get_split i s =
     (case messages s i of
        None \<Rightarrow> None
      | Some m \<Rightarrow>
          (case keys s i of
             None \<Rightarrow> None
           | Some k \<Rightarrow> Some \<lparr>msg_id = msg_id m, message = message m,
                 createdAt = createdAt m, expiresAt = expiresAt m, ipReader = ipReader m,
                 ipWriter = ipWriter m, userAgent = userAgent m, key = k\<rparr>))"

definition Messages_destroy_split :: "jsstring \<Rightarrow> db_split \<Rightarrow> db_split" where
  \<comment> \<open>\<^verbatim>\<open>DELETE FROM keys WHERE id = $id\<close>, and nothing on \<^verbatim>\<open>messages\<close>\<close>
  "Messages_destroy_split i s = s\<lparr>keys := (keys s)(i := None)\<rparr>"

definition deleteExpiredKeys :: "int \<Rightarrow> db_split \<Rightarrow> db_split" where
  \<comment> \<open>\<^verbatim>\<open>DELETE FROM keys WHERE id NOT IN (SELECT id FROM messages WHERE expiresAt > $date)\<close>\<close>
  "deleteExpiredKeys now s =
     s\<lparr>keys := (\<lambda>i. case keys s i of
                        None \<Rightarrow> None
                      | Some k \<Rightarrow>
                          (case messages s i of
                             None \<Rightarrow> None
                           | Some m \<Rightarrow> if expiresAt m > now then Some k else None))\<rparr>"

definition Messages_purgeExpired_split :: "int \<Rightarrow> db_split \<Rightarrow> db_split" where
  \<comment> \<open>\<open>deleteExpiredKeys\<close>, then \<^verbatim>\<open>DELETE FROM messages WHERE expiresAt < $date\<close>\<close>
  "Messages_purgeExpired_split now s =
     (let s1 = deleteExpiredKeys now s
      in s1\<lparr>messages := (\<lambda>i. case messages s1 i of
                                 None \<Rightarrow> None
                               | Some m \<Rightarrow> if expiresAt m < now then None else Some m)\<rparr>)"

definition get_available_split ::
  "(jsstring \<Rightarrow> jsstring) \<Rightarrow> jsstring \<Rightarrow> db_split \<Rightarrow> (failure + presence) \<times> db_split" where
  "get_available_split xss pid s =
     (let i = xss pid
      in (case Messages_get_split i s of Some m \<Rightarrow> Inr Exist | None \<Rightarrow> Inl NotFound, s))"

definition get_message_split ::
  "(jsstring \<Rightarrow> jsstring) \<Rightarrow> jsstring \<Rightarrow> db_split \<Rightarrow> (failure + Message) \<times> db_split" where
  "get_message_split xss pid s =
     (let i = xss pid;
          m = Messages_get_split i s;
          s' = Messages_destroy_split i s
      in (case m of Some r \<Rightarrow> Inr r | None \<Rightarrow> Inl NotFound, s'))"


definition fetchMessage_split ::
  "(jsstring \<Rightarrow> jsstring) \<Rightarrow> jsstring \<Rightarrow> db_split \<Rightarrow> (failure + jsstring) \<times> db_split" where
  "fetchMessage_split xss pid s =
     (case get_message_split xss pid s of
        (Inl e, s') \<Rightarrow> (Inl e, s')
      | (Inr r, s') \<Rightarrow> (Inr (decryptedMessage (message r) (key r)), s'))"

subsection \<open>Sample inputs\<close>

text \<open>
  Concrete inputs for the runs below: a byte source, a sanitizer that escapes the
  character \<^verbatim>\<open><\<close> as \<^verbatim>\<open>&lt;\<close> and keeps every other code unit (so it keeps a
  hexadecimal id), a column, and the stores that hold one message.

  The column is that of a UTF-8 database fed with UTF-16 text. The conversion to UTF-8
  reads a code unit of the surrogate range together with the code unit that follows it,
  whatever that one is, as one code point beyond \<^verbatim>\<open>0xFFFF\<close>: ten bits of each. Read
  back, the code point is a high and a low surrogate. A surrogate that ends the text
  has no code unit to go with and comes back as \<^verbatim>\<open>0xFFFD\<close>.
\<close>

fun utf8_column :: textcolumn where
  "utf8_column [] = []"
| "utf8_column [c] = (if isHighSurrogate c \<or> isLowSurrogate c then [0xFFFD] else [c])"
| "utf8_column (c # c2 # cs) =
     (if isHighSurrogate c \<or> isLowSurrogate c
      then (0xD800 OR (c AND 0x3FF)) # (0xDC00 OR (c2 AND 0x3FF)) # utf8_column cs
      else c # utf8_column (c2 # cs))"

definition sample_entropy :: entropy where
  "sample_entropy n = of_nat (7 * n + 10)"

definition sample_xss :: "jsstring \<Rightarrow> jsstring" where
  "sample_xss str = concat (map (\<lambda>c. if c = 0x3C then [0x26, 0x6C, 0x74, 0x3B] else [c]) str)"

definition sample_id :: jsstring where
  \<comment> \<open>the id that \<open>sample_entropy\<close> gives to a message of two code units\<close>
  "sample_id = toHex (randomBytes sample_entropy 2 16)"

definition sample_db :: db where
  \<comment> \<open>the message \<^verbatim>\<open>hi\<close>, created at clock 0 in the empty store\<close>
  "sample_db = snd (Messages_set utf8_column sample_entropy 0 0 Map.empty [0x68, 0x69] Map.empty)"

definition empty_split :: db_split where
  "empty_split = \<lparr>messages = Map.empty, keys = Map.empty\<rparr>"

definition sample_split :: db_split where
  "sample_split =
     snd (Messages_set_split utf8_column sample_entropy 0 0 Map.empty [0x68, 0x69] empty_split)"




section \<open>The codec is an involution\<close>

lemma xor_twice: "(c XOR x) XOR x = (c :: 16 word)"
  by (simp add: xor.assoc)

lemma codec_round_trip: "decryptedMessage (encryptedMessage p k) k = p"
proof (rule nth_equalityI)
  show "length (decryptedMessage (encryptedMessage p k) k) = length p"
    by (simp add: decryptedMessage_def encryptedMessage_def)
next
  fix i
  assume "i < length (decryptedMessage (encryptedMessage p k) k)"
  then have i: "i < length p"
    by (simp add: decryptedMessage_def encryptedMessage_def)
  then show "decryptedMessage (encryptedMessage p k) k ! i = p ! i"
    by (simp add: decryptedMessage_def encryptedMessage_def xor_twice)
qed

text \<open>
  C2. For every plaintext \<open>p\<close> and every key \<open>k\<close> at least as long as \<open>p\<close>, decoding the
  encoding of \<open>p\<close> with the same key gives \<open>p\<close> back; the empty plaintext is one of them.
\<close>

theorem C2_round_trip:
  "length p \<le> length k \<Longrightarrow> decryptedMessage (encryptedMessage p k) k = p"
  by (rule codec_round_trip)

theorem C2_round_trip_witness:
  "length [0x68, 0x69 :: 16 word] \<le> length [0x30, 0x61, 0x66, 0x39 :: 16 word]
   \<and> decryptedMessage (encryptedMessage [0x68, 0x69] [0x30, 0x61, 0x66, 0x39])
        [0x30, 0x61, 0x66, 0x39] = [0x68, 0x69 :: 16 word]"
  using C2_round_trip [of "[0x68, 0x69]" "[0x30, 0x61, 0x66, 0x39]"] by simp

section \<open>Keys and ids\<close>

lemma length_toHex: "length (toHex bs) = 2 * length bs"
  by (induction bs) (simp_all add: toHex_def)

lemma length_generateKey: "length (generateKey rnd off n) = 2 * n"
  by (simp add: generateKey_def randomBytes_def length_toHex)

lemma generated_key_covers: "length p \<le> length (generateKey rnd off (length p))"
  by (simp add: length_generateKey)

lemma sixteen_cases:
  "d < 16 \<Longrightarrow> d = 0 \<or> d = 1 \<or> d = 2 \<or> d = 3 \<or> d = 4 \<or> d = 5 \<or> d = 6 \<or> d = 7 \<or> d = 8
      \<or> d = 9 \<or> d = 10 \<or> d = 11 \<or> d = 12 \<or> d = 13 \<or> d = 14 \<or> d = (15 :: nat)"
  by arith

lemma byte_nibbles: "unat (b :: 8 word) div 16 < 16 \<and> unat b mod 16 < 16"
proof -
  have "unat b < 256" using unsigned_less [of b] by simp
  then show ?thesis by simp
qed

text \<open>A hexadecimal rendering has no \<^verbatim>\<open><\<close>, so the sample sanitizer keeps every id.\<close>

lemma hexDigit_not_lt: "d < 16 \<Longrightarrow> hexDigit d \<noteq> 0x3C"
  using sixteen_cases [of d] by (auto simp: hexDigit_def)

lemma sample_xss_fixes:
  "0x3C \<notin> set str \<Longrightarrow> sample_xss str = str"
  by (induction str) (simp_all add: sample_xss_def)

lemma toHex_no_lt: "0x3C \<notin> set (toHex bs)"
  using byte_nibbles by (auto simp: toHex_def hexDigit_not_lt)

lemma sample_xss_keeps_id: "sample_xss (toHex bs) = toHex bs"
  by (rule sample_xss_fixes) (rule toHex_no_lt)

section \<open>Well-formed text and the column\<close>

text \<open>
  The six high bits of a code unit say whether it is a high surrogate, a low surrogate
  or neither. A hexadecimal digit has none of them, so encoding with a generated key
  changes no code unit's kind, and the encoded text is well-formed exactly when the
  plaintext is.
\<close>

lemma xor_keeps_kind:
  "x AND 0xFC00 = 0 \<Longrightarrow> (c XOR x) AND 0xFC00 = c AND (0xFC00 :: 16 word)"
  by (simp add: bit.conj_xor_distrib2)

lemma wellFormed_same_kinds:
  "list_all2 (\<lambda>a b. a AND 0xFC00 = b AND 0xFC00) xs ys \<Longrightarrow> wellFormed xs = wellFormed ys"
proof (induction xs arbitrary: ys rule: wellFormed.induct)
  case 1
  then show ?case by simp
next
  case (2 c)
  then show ?case by (auto simp: list_all2_Cons1 isHighSurrogate_def isLowSurrogate_def)
next
  case (3 c c2 cs)
  from "3.prems" obtain b b2 bs where ys: "ys = b # b2 # bs"
    and c: "c AND 0xFC00 = b AND 0xFC00" and c2: "c2 AND 0xFC00 = b2 AND 0xFC00"
    and rest: "list_all2 (\<lambda>a b. a AND 0xFC00 = b AND 0xFC00) cs bs"
    by (auto simp: list_all2_Cons1)
  have tl: "list_all2 (\<lambda>a b. a AND 0xFC00 = b AND 0xFC00) (c2 # cs) (b2 # bs)"
    using c2 rest by simp
  show ?case
  proof (cases "isHighSurrogate c")
    case True
    with "3.IH"(1) [OF True rest] c c2 ys show ?thesis
      by (simp add: isHighSurrogate_def isLowSurrogate_def)
  next
    case False
    with "3.IH"(2) [OF False tl] c c2 ys show ?thesis
      by (simp add: isHighSurrogate_def isLowSurrogate_def)
  qed
qed

lemma hexDigit_kind: "d < 16 \<Longrightarrow> hexDigit d AND 0xFC00 = 0"
  using sixteen_cases [of d] by (auto simp: hexDigit_def)

lemma toHex_kind: "c \<in> set (toHex bs) \<Longrightarrow> c AND 0xFC00 = 0"
  using byte_nibbles by (auto simp: toHex_def hexDigit_kind)

lemma keyCodeAt_kind:
  assumes "\<forall>c \<in> set k. c AND 0xFC00 = 0"
  shows "keyCodeAt k i AND 0xFC00 = 0"
proof (cases "k = []")
  case True
  then show ?thesis by (simp add: keyCodeAt_def)
next
  case False
  then have "k ! (i mod length k) \<in> set k" by simp
  with assms False show ?thesis by (simp add: keyCodeAt_def)
qed

lemma wellFormed_encrypted:
  assumes "\<forall>c \<in> set k. c AND 0xFC00 = 0"
  shows "wellFormed (encryptedMessage p k) = wellFormed p"
proof (rule wellFormed_same_kinds)
  show "list_all2 (\<lambda>a b. a AND 0xFC00 = b AND 0xFC00) (encryptedMessage p k) p"
    by (simp add: list_all2_conv_all_nth encryptedMessage_def xor_keeps_kind
        keyCodeAt_kind [OF assms])
qed

lemma wellFormed_generated:
  "wellFormed (encryptedMessage p (generateKey rnd off n)) = wellFormed p"
  by (rule wellFormed_encrypted) (simp add: generateKey_def toHex_kind)

lemma kept_as_given:
  assumes "\<forall>str. wellFormed str \<longrightarrow> col str = str" and "wellFormed p"
  shows "col (encryptedMessage p (generateKey rnd off n)) = encryptedMessage p (generateKey rnd off n)"
  using assms by (simp add: wellFormed_generated)






section \<open>The store with one table\<close>

lemma Messages_set_Inr:
  assumes "Messages_set col rnd t_new t_now hdrs msg d = (Inr i, d1)"
  shows "i = toHex (randomBytes rnd (length msg) 16)"
    and "d i = None"
    and "d1 = d(i \<mapsto> \<lparr>msg_id = i,
            message = col (encryptedMessage msg (generateKey rnd 0 (length msg))),
            createdAt = t_new, expiresAt = t_now + expires * 1000, ipReader = None,
            ipWriter = map_option col
              (orElse (hdrs ''x-forwarded-for'') (orElse (hdrs ''x-real-ip'') None)),
            userAgent = map_option col (hdrs ''user-agent''),
            key = generateKey rnd 0 (length msg)\<rparr>)"
  using assms by (auto simp: Messages_set_def Let_def split: if_splits)





lemma sample_set:
  "Messages_set utf8_column sample_entropy 0 0 Map.empty [0x68, 0x69] Map.empty
     = (Inr sample_id, sample_db)"
proof (rule prod_eqI)
  show "fst (Messages_set utf8_column sample_entropy 0 0 Map.empty [0x68, 0x69] Map.empty)
        = fst (Inr sample_id, sample_db)"
    by code_simp
  show "snd (Messages_set utf8_column sample_entropy 0 0 Map.empty [0x68, 0x69] Map.empty)
        = snd (Inr sample_id, sample_db)"
    by (simp add: sample_db_def)
qed

lemma sample_xss_id: "sample_xss sample_id = sample_id"
  by code_simp





text \<open>
  C7. For an id under which the handlers find no row (one never created, or one already
  fetched), the fetch and the availability probe both answer \<open>NotFound\<close>, as a value and
  not as an exception, and both leave the store as it was.
\<close>

theorem C7_not_found:
  assumes "Messages_get (xss pid) d = None"
  shows "fetchMessage xss pid d = (Inl NotFound, d)
       \<and> get_message xss pid d = (Inl NotFound, d)
       \<and> get_available xss pid d = (Inl NotFound, d)"
  using assms
  by (simp add: fetchMessage_def get_message_def get_available_def Messages_get_def
      Messages_destroy_def Let_def fun_upd_idem)

theorem C7_not_found_witness:
  "Messages_get (sample_xss [0x3C, 0x62]) sample_db = None
   \<and> fetchMessage sample_xss [0x3C, 0x62] sample_db = (Inl NotFound, sample_db)
   \<and> get_message sample_xss [0x3C, 0x62] sample_db = (Inl NotFound, sample_db)
   \<and> get_available sample_xss [0x3C, 0x62] sample_db = (Inl NotFound, sample_db)"
proof -
  have h: "Messages_get (sample_xss [0x3C, 0x62]) sample_db = None"
    by code_simp
  from C7_not_found [where xss = sample_xss and pid = "[0x3C, 0x62]", OF h] h show ?thesis by simp
qed

text \<open>
  The key stored with the sample message \<^verbatim>\<open>hi\<close> (two code units) is \<^verbatim>\<open>0a11\<close>, of
  four code units.
\<close>

theorem C8_counterexample:
  "fst (Messages_set utf8_column sample_entropy 0 0 Map.empty [0x68, 0x69] Map.empty)
     = Inr sample_id
   \<and> map_option key
        (snd (Messages_set utf8_column sample_entropy 0 0 Map.empty [0x68, 0x69] Map.empty)
           sample_id)
       = Some [0x30, 0x61, 0x31, 0x31]
   \<and> length [0x30, 0x61, 0x31, 0x31 :: 16 word] \<noteq> length [0x68, 0x69 :: 16 word]"
  by code_simp

text \<open>
  C8, amended. The key that \<open>Messages_set\<close> stores is the hexadecimal rendering of as many
  random bytes as the plaintext has code units, so it has twice the length of the
  plaintext.
\<close>

theorem C8_key_length:
  assumes "Messages_set col rnd t_new t_now hdrs p d = (Inr i, d1)"
  shows "map_option (\<lambda>m. length (key m)) (d1 i) = Some (2 * length p)"
  using Messages_set_Inr(3) [OF assms] by (simp add: length_generateKey)

theorem C8_key_length_witness:
  "Messages_set utf8_column sample_entropy 0 0 Map.empty [0x68, 0x69] Map.empty
     = (Inr sample_id, sample_db)
   \<and> map_option (\<lambda>m. length (key m)) (sample_db sample_id)
       = Some (2 * length [0x68, 0x69 :: 16 word])"
  using C8_key_length [OF sample_set] sample_set by simp

lemma Messages_set_timestamps:
  assumes "Messages_set col rnd t_new t_now hdrs p d = (Inr i, d1)"
  shows "map_option createdAt (d1 i) = Some t_new"
    and "map_option expiresAt (d1 i) = Some (t_now + 86400000)"
  using Messages_set_Inr(3) [OF assms] by (simp_all add: expires_def)

lemma Messages_set_ttl_same_reading:
  assumes "Messages_set col rnd t t hdrs p d = (Inr i, d1)"
  shows "\<exists>m. d1 i = Some m \<and> expiresAt m = createdAt m + 86400000"
  using Messages_set_Inr(3) [OF assms] by (simp add: expires_def)

text \<open>
  C9. \<open>Messages_set\<close> reads the clock once for \<open>createdAt\<close> and once more for
  \<open>expiresAt\<close>. When the clock moves from 0 to 1 between the two readings, the row has
  \<open>createdAt = 0\<close> and \<open>expiresAt = 86400001\<close>, one millisecond more than 24 hours later.
\<close>

theorem C9_clock_read_twice:
  "fst (Messages_set utf8_column sample_entropy 0 1 Map.empty [0x68, 0x69] Map.empty)
     = Inr sample_id
   \<and> map_option createdAt
       (snd (Messages_set utf8_column sample_entropy 0 1 Map.empty [0x68, 0x69] Map.empty)
          sample_id) = Some 0
   \<and> map_option expiresAt
       (snd (Messages_set utf8_column sample_entropy 0 1 Map.empty [0x68, 0x69] Map.empty)
          sample_id)
       = Some 86400001"
  by code_simp

section \<open>Expiry\<close>

lemma purgeExpired_removes:
  "d i = Some r \<Longrightarrow> expiresAt r < now \<Longrightarrow> Messages_purgeExpired now d i = None"
  by (simp add: Messages_purgeExpired_def)

lemma purgeExpired_keeps:
  "d i = Some r \<Longrightarrow> now \<le> expiresAt r \<Longrightarrow> Messages_purgeExpired now d i = Some r"
  by (simp add: Messages_purgeExpired_def)

lemma purgeExpired_absent:
  "d i = None \<Longrightarrow> Messages_purgeExpired now d i = None"
  by (simp add: Messages_purgeExpired_def)

lemma purgeExpired_twice:
  "Messages_purgeExpired now (Messages_purgeExpired now d) = Messages_purgeExpired now d"
  by (rule ext) (simp add: Messages_purgeExpired_def split: option.splits)

lemma purgeExpired_split_messages:
  "messages (Messages_purgeExpired_split now s) i =
     (case messages s i of None \<Rightarrow> None
      | Some m \<Rightarrow> if expiresAt m < now then None else Some m)"
  by (simp add: Messages_purgeExpired_split_def deleteExpiredKeys_def Let_def)

lemma purgeExpired_split_keys:
  "keys (Messages_purgeExpired_split now s) i =
     (case keys s i of None \<Rightarrow> None
      | Some k \<Rightarrow> (case messages s i of None \<Rightarrow> None
                  | Some m \<Rightarrow> if now < expiresAt m then Some k else None))"
  by (simp add: Messages_purgeExpired_split_def deleteExpiredKeys_def Let_def)

lemma purgeExpired_split_keeps_later:
  assumes "Messages_get_split i s = Some r" and "now < expiresAt r"
  shows "Messages_get_split i (Messages_purgeExpired_split now s) = Some r"
  using assms
  by (auto simp: Messages_get_split_def purgeExpired_split_messages purgeExpired_split_keys
      split: option.splits)

lemma purgeExpired_split_removes:
  assumes "messages s i = Some m" and "expiresAt m < now"
  shows "messages (Messages_purgeExpired_split now s) i = None"
    and "keys (Messages_purgeExpired_split now s) i = None"
  using assms
  by (simp_all add: purgeExpired_split_messages purgeExpired_split_keys split: option.splits)

lemma purgeExpired_split_twice:
  "Messages_purgeExpired_split now (Messages_purgeExpired_split now s)
     = Messages_purgeExpired_split now s"
proof -
  let ?s1 = "Messages_purgeExpired_split now s"
  have m: "messages (Messages_purgeExpired_split now ?s1) = messages ?s1"
    by (rule ext) (simp add: purgeExpired_split_messages split: option.splits)
  have k: "keys (Messages_purgeExpired_split now ?s1) = keys ?s1"
    by (rule ext) (simp add: purgeExpired_split_messages purgeExpired_split_keys
        split: option.splits)
  from m k show ?thesis by simp
qed

text \<open>
  C6. On the store with one table the sweep removes the rows with \<open>expiresAt < now\<close>,
  keeps every other row, and changes nothing when run again (the lemmas above). On the
  store with a table of keys the two statements of the sweep disagree at
  \<open>expiresAt = now\<close>: the sample message expires at 86400000, and the sweep at that very
  clock keeps its row in \<^verbatim>\<open>messages\<close> and deletes its key. Before the sweep the fetch
  returns the plaintext; after it the fetch returns \<open>NotFound\<close>.
\<close>

theorem C6_split_boundary:
  "fst (Messages_set_split utf8_column sample_entropy 0 0 Map.empty [0x68, 0x69] empty_split)
     = Inr sample_id
   \<and> fst (fetchMessage_split sample_xss sample_id sample_split) = Inr [0x68, 0x69]
   \<and> map_option expiresAt (messages sample_split sample_id) = Some 86400000
   \<and> keys (Messages_purgeExpired_split 86400000 sample_split) sample_id = None
   \<and> messages (Messages_purgeExpired_split 86400000 sample_split) sample_id
       = messages sample_split sample_id
   \<and> fst (fetchMessage_split sample_xss sample_id
            (Messages_purgeExpired_split 86400000 sample_split)) = Inl NotFound"
  by code_simp

text \<open>
  The sample message expires at 86400000. At the clock 90000000 a sweep would remove it,
  but no sweep has run, and the probe still answers that the message exists: the probe
  reads no clock.
\<close>

theorem C5_counterexample:
  "fst (Messages_set utf8_column sample_entropy 0 0 Map.empty [0x68, 0x69] Map.empty)
     = Inr sample_id
   \<and> map_option expiresAt (sample_db sample_id) = Some 86400000
   \<and> Messages_purgeExpired 90000000 sample_db sample_id = None
   \<and> fst (get_available sample_xss sample_id sample_db) = Inr Exist"
  by code_simp

text \<open>
  C5, amended. For a message created under the id \<open>i\<close>, the probe answers that it exists
  from its creation on, whatever the time, for as long as it is neither fetched nor
  swept; it answers \<open>NotFound\<close> after the message was fetched, and after a sweep whose
  clock is later than the message's \<open>expiresAt\<close>.
\<close>

theorem C5_exists:
  assumes "Messages_set col rnd t_new t_now hdrs p d = (Inr i, d1)" and "xss i = i"
  shows "get_available xss i d1 = (Inr Exist, d1)
       \<and> fst (get_available xss i (snd (get_message xss i d1))) = Inl NotFound
       \<and> (t_now + 86400000 < now \<longrightarrow>
            fst (get_available xss i (Messages_purgeExpired now d1)) = Inl NotFound)"
  using Messages_set_Inr(3) [OF assms(1)] assms(2)
  by (simp add: get_available_def get_message_def Messages_get_def Messages_destroy_def
      Messages_purgeExpired_def Let_def expires_def)

theorem C5_exists_witness:
  "Messages_set utf8_column sample_entropy 0 0 Map.empty [0x68, 0x69] Map.empty
     = (Inr sample_id, sample_db)
   \<and> sample_xss sample_id = sample_id
   \<and> (0 + 86400000 < (90000000 :: int))
   \<and> get_available sample_xss sample_id sample_db = (Inr Exist, sample_db)
   \<and> fst (get_available sample_xss sample_id (snd (get_message sample_xss sample_id sample_db)))
       = Inl NotFound
   \<and> fst (get_available sample_xss sample_id (Messages_purgeExpired 90000000 sample_db))
       = Inl NotFound"
  using C5_exists [where xss = sample_xss and now = 90000000, OF sample_set sample_xss_id]
    sample_set sample_xss_id
  by simp

section \<open>The store with a table of keys\<close>

lemma Messages_set_split_Inr:
  assumes "Messages_set_split col rnd t_new t_now hdrs msg s = (Inr i, s1)"
  shows "i = toHex (randomBytes rnd (length msg) 16)"
    and "messages s i = None"
    and "keys s i = None"
    and "messages s1 = (messages s)(i \<mapsto> \<lparr>msg_id = i,
            message = col (encryptedMessage msg (generateKey rnd 0 (length msg))),
            createdAt = t_new, expiresAt = t_now + expires * 1000, ipReader = None,
            ipWriter = map_option col
              (orElse (hdrs ''x-forwarded-for'') (orElse (hdrs ''x-real-ip'') None)),
            userAgent = map_option col (hdrs ''user-agent'')\<rparr>)"
    and "keys s1 = (keys s)(i \<mapsto> generateKey rnd 0 (length msg))"
  using assms by (auto simp: Messages_set_split_def Let_def split: if_splits)

lemma fetchMessage_split_present:
  "Messages_get_split (xss pid) s = Some r \<Longrightarrow>
   fetchMessage_split xss pid s
     = (Inr (decryptedMessage (message r) (key r)), s\<lparr>keys := (keys s)(xss pid := None)\<rparr>)"
  by (simp add: fetchMessage_split_def get_message_split_def Messages_destroy_split_def Let_def)

lemma Messages_get_split_after_set:
  assumes "Messages_set_split col rnd t_new t_now hdrs msg s = (Inr i, s1)"
  shows "\<exists>r. Messages_get_split i s1 = Some r
           \<and> message r = col (encryptedMessage msg (generateKey rnd 0 (length msg)))
           \<and> key r = generateKey rnd 0 (length msg)"
  using Messages_set_split_Inr(4,5) [OF assms] by (simp add: Messages_get_split_def)

lemma sample_set_split:
  "Messages_set_split utf8_column sample_entropy 0 0 Map.empty [0x68, 0x69] empty_split
     = (Inr sample_id, sample_split)"
proof (rule prod_eqI)
  show "fst (Messages_set_split utf8_column sample_entropy 0 0 Map.empty [0x68, 0x69]
          empty_split)
        = fst (Inr sample_id, sample_split)"
    by code_simp
  show "snd (Messages_set_split utf8_column sample_entropy 0 0 Map.empty [0x68, 0x69]
          empty_split)
        = snd (Inr sample_id, sample_split)"
    by (simp add: sample_split_def)
qed

lemma fetchMessage_split_absent:
  "keys s (xss pid) = None \<Longrightarrow> fetchMessage_split xss pid s = (Inl NotFound, s)"
  by (simp add: fetchMessage_split_def get_message_split_def Messages_get_split_def
      Messages_destroy_split_def Let_def fun_upd_idem split: option.splits)

lemma read_once_split:
  assumes "Messages_set_split col rnd t_new t_now hdrs p s = (Inr i, s1)" and "xss i = i"
    and "wellFormed p" and "\<forall>str. wellFormed str \<longrightarrow> col str = str"
  shows "\<exists>s2. fetchMessage_split xss i s1 = (Inr p, s2)
             \<and> fetchMessage_split xss i s2 = (Inl NotFound, s2)"
proof -
  from Messages_get_split_after_set [OF assms(1)] obtain r
    where r: "Messages_get_split i s1 = Some r"
      and m: "message r = col (encryptedMessage p (generateKey rnd 0 (length p)))"
      and k: "key r = generateKey rnd 0 (length p)"
    by blast
  let ?s2 = "s1\<lparr>keys := (keys s1)(i := None)\<rparr>"
  have "fetchMessage_split xss i s1 = (Inr p, ?s2)"
    using r m k assms(2) kept_as_given [where col = col, OF assms(4,3)]
    by (simp add: fetchMessage_split_present codec_round_trip)
  moreover have "keys ?s2 (xss i) = None" using assms(2) by simp
  then have "fetchMessage_split xss i ?s2 = (Inl NotFound, ?s2)"
    by (rule fetchMessage_split_absent)
  ultimately show ?thesis by blast
qed

text \<open>
  What a fetch that finds the record does to the store. With one table it deletes the
  row of that id and keeps the row of every other id. With the table of keys it deletes
  the key of that id and keeps the key of every other id, but the table \<^verbatim>\<open>messages\<close>
  is left as it was, the row of the fetched message included.
\<close>

lemma get_message_effect:
  "Messages_get (xss pid) d = Some r \<Longrightarrow>
      fst (get_message xss pid d) = Inr r
      \<and> snd (get_message xss pid d) (xss pid) = None
      \<and> (\<forall>j. j \<noteq> xss pid \<longrightarrow> snd (get_message xss pid d) j = d j)"
  by (simp add: get_message_def Messages_get_def Messages_destroy_def Let_def)

lemma get_message_split_effect:
  "Messages_get_split (xss pid) s = Some r \<Longrightarrow>
      fst (get_message_split xss pid s) = Inr r
      \<and> keys (snd (get_message_split xss pid s)) (xss pid) = None
      \<and> Messages_get_split (xss pid) (snd (get_message_split xss pid s)) = None
      \<and> (\<forall>j. j \<noteq> xss pid \<longrightarrow> keys (snd (get_message_split xss pid s)) j = keys s j)
      \<and> messages (snd (get_message_split xss pid s)) = messages s"
  by (simp add: get_message_split_def Messages_get_split_def Messages_destroy_split_def Let_def
      split: option.splits)

text \<open>
  C3. On the store with a table of keys, the fetch of the sample message returns its
  plaintext and deletes its key, and the row of the message, with the encoded text,
  is still in \<^verbatim>\<open>messages\<close> afterwards. On the store with one table the same fetch
  leaves no row under the id.
\<close>

theorem C3_split_row_stays:
  "fst (Messages_set_split utf8_column sample_entropy 0 0 Map.empty [0x68, 0x69] empty_split)
     = Inr sample_id
   \<and> fst (fetchMessage_split sample_xss sample_id sample_split) = Inr [0x68, 0x69]
   \<and> keys (snd (fetchMessage_split sample_xss sample_id sample_split)) sample_id = None
   \<and> map_option message
        (messages (snd (fetchMessage_split sample_xss sample_id sample_split)) sample_id)
       = Some [0x58, 0x08]
   \<and> fst (fetchMessage sample_xss sample_id sample_db) = Inr [0x68, 0x69]
   \<and> snd (fetchMessage sample_xss sample_id sample_db) sample_id = None"
  by code_simp

section \<open>The sanitized body\<close>









end
